theory Spec2Isabelle
  imports Complex_Main "HOL-Library.AList"
begin

section \<open>JavaScript values\<close>

text \<open>
  The analytical engine is TypeScript running on a JavaScript engine. Its numbers are
  IEEE doubles. They are modelled as exact rationals extended with \<open>NaN\<close> and the two
  infinities: the special values follow IEEE, the finite arithmetic is exact. Rounding to
  53 bits, overflow of a finite operation and the sign of zero are not modelled.
\<close>

datatype jsnum = NaN | PosInf | NegInf | Fin rat

datatype js_error = TypeError | RangeError

fun js_neg :: "jsnum \<Rightarrow> jsnum" where
  "js_neg NaN = NaN"
| "js_neg PosInf = NegInf"
| "js_neg NegInf = PosInf"
| "js_neg (Fin a) = Fin (- a)"

fun js_add :: "jsnum \<Rightarrow> jsnum \<Rightarrow> jsnum" where
  "js_add (Fin a) (Fin b) = Fin (a + b)"
| "js_add NaN y = NaN"
| "js_add x NaN = NaN"
| "js_add PosInf NegInf = NaN"
| "js_add NegInf PosInf = NaN"
| "js_add PosInf y = PosInf"
| "js_add NegInf y = NegInf"
| "js_add (Fin a) y = y"

definition js_sub :: "jsnum \<Rightarrow> jsnum \<Rightarrow> jsnum" where
  "js_sub x y = js_add x (js_neg y)"

text \<open>The sign of an infinite or finite non-zero number: \<open>True\<close> is negative.\<close>

fun js_negative :: "jsnum \<Rightarrow> bool" where
  "js_negative NegInf = True"
| "js_negative (Fin a) = (a < 0)"
| "js_negative x = False"

definition js_signed_inf :: "bool \<Rightarrow> jsnum" where
  "js_signed_inf neg = (if neg then NegInf else PosInf)"

fun js_mul :: "jsnum \<Rightarrow> jsnum \<Rightarrow> jsnum" where
  "js_mul (Fin a) (Fin b) = Fin (a * b)"
| "js_mul NaN y = NaN"
| "js_mul x NaN = NaN"
| "js_mul (Fin a) y = (if a = 0 then NaN else js_signed_inf (js_negative (Fin a) \<noteq> js_negative y))"
| "js_mul x (Fin b) = (if b = 0 then NaN else js_signed_inf (js_negative x \<noteq> js_negative (Fin b)))"
| "js_mul x y = js_signed_inf (js_negative x \<noteq> js_negative y)"

fun js_div :: "jsnum \<Rightarrow> jsnum \<Rightarrow> jsnum" where
  "js_div (Fin a) (Fin b) =
     (if b = 0 then (if a = 0 then NaN else js_signed_inf (a < 0)) else Fin (a / b))"
| "js_div NaN y = NaN"
| "js_div x NaN = NaN"
| "js_div (Fin a) y = Fin 0"
| "js_div x (Fin b) = js_signed_inf (js_negative x \<noteq> (b < 0))"
| "js_div x y = NaN"

text \<open>\<open>Math.round\<close> rounds half up; \<open>Math.max(0, x)\<close> is \<open>NaN\<close> on \<open>NaN\<close>.\<close>

fun Math_round :: "jsnum \<Rightarrow> jsnum" where
  "Math_round (Fin a) = Fin (of_int \<lfloor>a + 1 / 2\<rfloor>)"
| "Math_round x = x"

fun Math_max0 :: "jsnum \<Rightarrow> jsnum" where
  "Math_max0 NaN = NaN"
| "Math_max0 PosInf = PosInf"
| "Math_max0 NegInf = Fin 0"
| "Math_max0 (Fin a) = Fin (max 0 a)"

text \<open>\<open>x <= y\<close> on numbers: false when either is \<open>NaN\<close>.\<close>

fun js_le :: "jsnum \<Rightarrow> jsnum \<Rightarrow> bool" where
  "js_le (Fin a) (Fin b) = (a \<le> b)"
| "js_le NaN y = False"
| "js_le x NaN = False"
| "js_le NegInf y = True"
| "js_le x PosInf = True"
| "js_le x y = False"

text \<open>
  The scalar values a parsed row can hold. A row is an object; reading a property it
  does not have gives \<open>undefined\<close>.
\<close>

datatype jsval = JSUndefined | JSNull | JSBool bool | JSNumber jsnum | JSString string

type_synonym row = "(string \<times> jsval) list"

definition getProp :: "row \<Rightarrow> string \<Rightarrow> jsval" where
  "getProp r k = (case map_of r k of None \<Rightarrow> JSUndefined | Some v \<Rightarrow> v)"

fun truthy_num :: "jsnum \<Rightarrow> bool" where
  "truthy_num NaN = False"
| "truthy_num (Fin a) = (a \<noteq> 0)"
| "truthy_num x = True"

fun truthy :: "jsval \<Rightarrow> bool" where
  "truthy JSUndefined = False"
| "truthy JSNull = False"
| "truthy (JSBool b) = b"
| "truthy (JSNumber n) = truthy_num n"
| "truthy (JSString s) = (s \<noteq> [])"

text \<open>\<open>a || b\<close> on values: the left operand when it is truthy, the right one otherwise.\<close>

definition js_or :: "jsval \<Rightarrow> jsval \<Rightarrow> jsval" where
  "js_or a b = (if truthy a then a else b)"

definition js_or_num :: "jsnum \<Rightarrow> jsnum \<Rightarrow> jsnum" where
  "js_or_num a b = (if truthy_num a then a else b)"

section \<open>The engine's runtime\<close>

text \<open>
  What the code takes from the JavaScript engine and its host, and not from this
  repository, is a parameter of the model: the parser of date strings, the local
  calendar, the clock, the conversion of strings to numbers and back, and the random
  source. A time value is the number of milliseconds since the epoch; \<open>None\<close> is the
  time value \<open>NaN\<close> of an invalid date.
\<close>

record runtime =
  parseTime :: "string \<Rightarrow> int option"
  localDay :: "int \<Rightarrow> nat"
  localHours :: "int \<Rightarrow> nat"
  plusDays :: "int \<Rightarrow> nat \<Rightarrow> int option"
  isoDate :: "int \<Rightarrow> string"
  nowISO :: "nat \<Rightarrow> string"
  stringToNumber :: "string \<Rightarrow> jsnum"
  fractionToString :: "rat \<Rightarrow> string"
  toLocaleString :: "jsnum \<Rightarrow> string"
  toFixed1 :: "jsnum \<Rightarrow> string"
  random :: "nat \<Rightarrow> rat"
  sortOrder :: "(nat \<Rightarrow> nat \<Rightarrow> jsnum) \<Rightarrow> nat \<Rightarrow> nat list"

text \<open>
  \<^item> \<open>parseTime rt s\<close> is \<open>new Date(s).getTime()\<close> for a string \<open>s\<close>;
  \<^item> \<open>localDay rt t\<close> and \<open>localHours rt t\<close> are \<open>getDay()\<close> and \<open>getHours()\<close> of the
    valid time value \<open>t\<close> in the local time zone;
  \<^item> \<open>plusDays rt t i\<close> is the time value left by \<open>setDate(getDate() + i)\<close> on a date
    of time value \<open>t\<close>, \<open>None\<close> when it leaves the range of time values;
  \<^item> \<open>isoDate rt t\<close> is \<open>toISOString().split('T')[0]\<close> of a valid time value;
  \<^item> \<open>nowISO rt i\<close> is \<open>new Date().toISOString()\<close> as read while row \<open>i\<close> is built;
  \<^item> \<open>stringToNumber rt s\<close> is \<open>Number(s)\<close> for a string;
  \<^item> \<open>fractionToString rt q\<close> is the decimal rendering of a number that is not an
    integer below \<open>10^21\<close> in size;
  \<^item> \<open>toLocaleString rt n\<close> and \<open>toFixed1 rt n\<close> are \<open>n.toLocaleString()\<close> and
    \<open>n.toFixed(1)\<close>;
  \<^item> \<open>random rt i\<close> is the value of the \<open>i\<close>-th call of \<open>Math.random()\<close>;
  \<^item> \<open>sortOrder rt c n\<close> is the order in which the engine's \<open>sort\<close> leaves an array
    of \<open>n\<close> elements when the comparator is not a consistent one: the positions the
    elements came from, listed in the order of the result, where \<open>c i j\<close> is what the
    comparator returns on the elements that came from positions \<open>i\<close> and \<open>j\<close>.
\<close>

definition runtime_ok :: "runtime \<Rightarrow> bool" where
  "runtime_ok rt \<longleftrightarrow>
     (\<forall>t. localDay rt t < 7) \<and> (\<forall>t. localHours rt t < 24) \<and>
     (\<forall>i. 0 \<le> random rt i \<and> random rt i < 1)"

text \<open>
  Whatever the comparator, the standard has \<open>sort\<close> return the elements it was given,
  each once: the engine's order is a permutation of the positions.
\<close>

definition sorts_by_permuting :: "runtime \<Rightarrow> bool" where
  "sorts_by_permuting rt \<longleftrightarrow>
     (\<forall>c n. length (sortOrder rt c n) = n \<and> set (sortOrder rt c n) = {..<n})"

text \<open>\<open>Number(v)\<close>.\<close>

fun Number :: "runtime \<Rightarrow> jsval \<Rightarrow> jsnum" where
  "Number rt JSUndefined = NaN"
| "Number rt JSNull = Fin 0"
| "Number rt (JSBool b) = (if b then Fin 1 else Fin 0)"
| "Number rt (JSNumber n) = n"
| "Number rt (JSString s) = stringToNumber rt s"

text \<open>
  The time value of \<open>new Date(v)\<close>: a string is parsed, anything else but \<open>undefined\<close> is
  converted to a number, truncated, and clipped to the range of time values.
\<close>

definition timeClip :: "jsnum \<Rightarrow> int option" where
  "timeClip n =
     (case n of
        Fin a \<Rightarrow> (if \<bar>a\<bar> \<le> 8640000000000000 then Some (if a < 0 then - \<lfloor>- a\<rfloor> else \<lfloor>a\<rfloor>) else None)
      | _ \<Rightarrow> None)"

fun newDate :: "runtime \<Rightarrow> jsval \<Rightarrow> int option" where
  "newDate rt JSUndefined = None"
| "newDate rt (JSString s) = parseTime rt s"
| "newDate rt v = timeClip (Number rt v)"

text \<open>\<open>d.getHours()\<close> and \<open>d.getDay()\<close> as numbers: \<open>NaN\<close> on an invalid date.\<close>

definition getHours :: "runtime \<Rightarrow> int option \<Rightarrow> jsnum" where
  "getHours rt d = (case d of None \<Rightarrow> NaN | Some t \<Rightarrow> Fin (of_nat (localHours rt t)))"

section \<open>The data model (types.ts)\<close>

text \<open>
  \<open>SocialData\<close> declares \<open>Date\<close>, \<open>Sector\<close> and \<open>Platform\<close> as strings. The normalizer
  builds its records from rows of type \<open>any\<close>, so there these three fields hold whatever
  value the row had; the type parameter is \<open>string\<close> for the declared interface and
  \<open>jsval\<close> for what the normalizer returns.
\<close>

record 'txt SocialData =
  Date :: 'txt
  Engagement :: jsnum
  Impressions :: jsnum
  Shares :: jsnum
  Likes :: jsnum
  Comments :: jsnum
  Sector :: 'txt
  Platform :: 'txt
  Hour :: jsnum

record NTSResults =
  bestDay :: string
  bestHour :: string
  engagementScore :: jsnum
  liftPercentage :: jsnum
  secondaryWindow :: string

record ForecastPoint =
  date :: string
  actual :: "jsnum option"
  predicted :: "jsnum option"

section \<open>processCSVData\<close>

definition numericField :: "runtime \<Rightarrow> row \<Rightarrow> string \<Rightarrow> string \<Rightarrow> jsnum" where
  "numericField rt r K k = Number rt (js_or (getProp r K) (js_or (getProp r k) (JSNumber (Fin 0))))"

definition textField :: "row \<Rightarrow> string \<Rightarrow> string \<Rightarrow> string \<Rightarrow> jsval" where
  "textField r K k dflt = js_or (getProp r K) (js_or (getProp r k) (JSString dflt))"

text \<open>A field is missing from a row when neither spelling of its key holds a truthy value.\<close>

definition missing :: "row \<Rightarrow> string \<Rightarrow> string \<Rightarrow> bool" where
  "missing r K k \<longleftrightarrow> \<not> truthy (getProp r K) \<and> \<not> truthy (getProp r k)"

definition hourField :: "runtime \<Rightarrow> row \<Rightarrow> jsnum" where
  "hourField rt r =
     (if truthy (getProp r ''Hour'') then Number rt (getProp r ''Hour'')
      else js_or_num (getHours rt (newDate rt (getProp r ''Date''))) (Fin 0))"

definition processRow :: "runtime \<Rightarrow> nat \<Rightarrow> row \<Rightarrow> jsval SocialData" where
  "processRow rt i r =
     \<lparr> Date = textField r ''Date'' ''date'' (nowISO rt i),
       Engagement = numericField rt r ''Engagement'' ''engagement'',
       Impressions = numericField rt r ''Impressions'' ''impressions'',
       Shares = numericField rt r ''Shares'' ''shares'',
       Likes = numericField rt r ''Likes'' ''likes'',
       Comments = numericField rt r ''Comments'' ''comments'',
       Sector = textField r ''Sector'' ''sector'' ''General'',
       Platform = textField r ''Platform'' ''platform'' ''Unknown'',
       Hour = hourField rt r \<rparr>"

definition processCSVData :: "runtime \<Rightarrow> row list \<Rightarrow> jsval SocialData list" where
  "processCSVData rt rawData = map (\<lambda>(i, r). processRow rt i r) (enumerate 0 rawData)"

section \<open>Strings and arrays of the standard library\<close>

text \<open>
  \<open>String(n)\<close>, as a template literal applies it: an integer below \<open>10^21\<close> in size is
  written in decimal digits, the special values by name.
\<close>

fun natToString :: "nat \<Rightarrow> string" where
  "natToString n =
     (if n < 10 then [''0123456789'' ! n]
      else natToString (n div 10) @ [''0123456789'' ! (n mod 10)])"

declare natToString.simps [simp del]

definition numToString :: "runtime \<Rightarrow> jsnum \<Rightarrow> string" where
  "numToString rt n =
     (case n of
        NaN \<Rightarrow> ''NaN''
      | PosInf \<Rightarrow> ''Infinity''
      | NegInf \<Rightarrow> ''-Infinity''
      | Fin a \<Rightarrow>
          (if of_int \<lfloor>a\<rfloor> = a \<and> \<bar>a\<bar> < 10 ^ 21
           then (if a < 0 then ''-'' else []) @ natToString (nat \<bar>\<lfloor>a\<rfloor>\<bar>)
           else fractionToString rt a))"

text \<open>\<open>s.split(c)\<close> for a one-character separator: never the empty array.\<close>

fun split_on :: "char \<Rightarrow> string \<Rightarrow> string list" where
  "split_on c [] = [[]]"
| "split_on c (x # xs) =
     (if x = c then [] # split_on c xs
      else (case split_on c xs of [] \<Rightarrow> [[x]] | p # ps \<Rightarrow> (x # p) # ps))"

definition padStart :: "nat \<Rightarrow> char \<Rightarrow> string \<Rightarrow> string" where
  "padStart n c s = replicate (n - length s) c @ s"

text \<open>
  \<open>xs.sort(cmp)\<close>. The sort reads of a comparator's result only its sign, and takes
  \<open>NaN\<close> for 0.
\<close>

fun compareSign :: "jsnum \<Rightarrow> int" where
  "compareSign NaN = 0"
| "compareSign PosInf = 1"
| "compareSign NegInf = - 1"
| "compareSign (Fin a) = (if a < 0 then - 1 else if a = 0 then 0 else 1)"

text \<open>
  The standard's consistent comparator on the elements of an array: equal to itself on
  each element, its equality symmetric and transitive, and below and above transitive.
\<close>

definition consistentOn :: "('a \<Rightarrow> 'a \<Rightarrow> jsnum) \<Rightarrow> 'a list \<Rightarrow> bool" where
  "consistentOn cmp xs \<longleftrightarrow>
     list_all (\<lambda>a. list_all (\<lambda>b. list_all (\<lambda>c.
       compareSign (cmp a a) = 0 \<and>
       (compareSign (cmp a b) = 0 \<longrightarrow> compareSign (cmp b a) = 0) \<and>
       (compareSign (cmp a b) = 0 \<and> compareSign (cmp b c) = 0 \<longrightarrow> compareSign (cmp a c) = 0) \<and>
       (compareSign (cmp a b) < 0 \<and> compareSign (cmp b c) < 0 \<longrightarrow> compareSign (cmp a c) < 0) \<and>
       (compareSign (cmp a b) > 0 \<and> compareSign (cmp b c) > 0 \<longrightarrow> compareSign (cmp a c) > 0))
       xs) xs) xs"

text \<open>
  With a consistent comparator the standard fixes the result: the elements in ascending
  order, equal ones in the order they had. That is the stable insertion sort, where an
  element moves in front of those the comparator puts after it (\<open>cmp y x > 0\<close>).
\<close>

fun js_positive :: "jsnum \<Rightarrow> bool" where
  "js_positive PosInf = True"
| "js_positive (Fin a) = (0 < a)"
| "js_positive x = False"

fun js_insert :: "('a \<Rightarrow> 'a \<Rightarrow> jsnum) \<Rightarrow> 'a \<Rightarrow> 'a list \<Rightarrow> 'a list" where
  "js_insert cmp x [] = [x]"
| "js_insert cmp x (y # ys) =
     (if js_positive (cmp y x) then x # y # ys else y # js_insert cmp x ys)"

definition stableSort :: "('a \<Rightarrow> 'a \<Rightarrow> jsnum) \<Rightarrow> 'a list \<Rightarrow> 'a list" where
  "stableSort cmp xs = foldl (\<lambda>acc x. js_insert cmp x acc) [] xs"

text \<open>
  With any other comparator (here, one that returns \<open>NaN\<close> on some pairs and not on
  others) the standard leaves the order to the engine, and the result is the one the
  runtime gives.
\<close>

definition arraySort :: "runtime \<Rightarrow> ('a \<Rightarrow> 'a \<Rightarrow> jsnum) \<Rightarrow> 'a list \<Rightarrow> 'a list" where
  "arraySort rt cmp xs =
     (if consistentOn cmp xs then stableSort cmp xs
      else map (\<lambda>i. xs ! i) (sortOrder rt (\<lambda>i j. cmp (xs ! i) (xs ! j)) (length xs)))"

text \<open>\<open>vals.reduce((a, b) => a + b, 0) / vals.length\<close>.\<close>

definition sumOf :: "jsnum list \<Rightarrow> jsnum" where
  "sumOf vals = foldl js_add (Fin 0) vals"

definition average :: "jsnum list \<Rightarrow> jsnum" where
  "average vals = js_div (sumOf vals) (Fin (of_nat (length vals)))"

section \<open>calculateNTS\<close>

definition weekDays :: "string list" where
  "weekDays = [''Sunday'', ''Monday'', ''Tuesday'', ''Wednesday'', ''Thursday'', ''Friday'', ''Saturday'']"

text \<open>
  \<open>weekDays[new Date(item.Date).getDay()]\<close> inside the template literal: an invalid date
  has the day \<open>NaN\<close>, the array gives \<open>undefined\<close> there and outside its bounds, and the
  template writes that as the text \<open>undefined\<close>.
\<close>

definition dayName :: "runtime \<Rightarrow> string \<Rightarrow> string" where
  "dayName rt s =
     (case parseTime rt s of
        None \<Rightarrow> ''undefined''
      | Some t \<Rightarrow> (if localDay rt t < length weekDays then weekDays ! localDay rt t else ''undefined''))"

definition windowKey :: "runtime \<Rightarrow> string SocialData \<Rightarrow> string" where
  "windowKey rt item = dayName rt (Date item) @ ''|'' @ numToString rt (Hour item)"

text \<open>
  \<open>intersectionMap\<close> is an object used as a dictionary: an association list in the
  order of insertion, which is the order \<open>Object.entries\<close> gives for its keys (every key
  holds a \<open>|\<close>, so none is an array index and none is inherited).
\<close>

type_synonym intersections = "(string \<times> jsnum list) list"

definition pushInto :: "intersections \<Rightarrow> string \<Rightarrow> jsnum \<Rightarrow> intersections" where
  "pushInto m key v =
     (let m1 = (if map_of m key = None then AList.update key [] m else m)
      in AList.update key (the (map_of m1 key) @ [v]) m1)"

definition collect :: "runtime \<Rightarrow> intersections \<times> jsnum list \<Rightarrow> string SocialData
    \<Rightarrow> intersections \<times> jsnum list" where
  "collect rt acc item =
     (pushInto (fst acc) (windowKey rt item) (Engagement item), snd acc @ [Engagement item])"

definition rankings :: "runtime \<Rightarrow> intersections \<Rightarrow> (string \<times> jsnum) list" where
  "rankings rt m =
     arraySort rt (\<lambda>a b. js_sub (snd b) (snd a)) (map (\<lambda>(key, vals). (key, average vals)) m)"

definition notAvailable :: NTSResults where
  "notAvailable = \<lparr> bestDay = ''N/A'', bestHour = ''N/A'', engagementScore = Fin 0,
     liftPercentage = Fin 0, secondaryWindow = ''N/A'' \<rparr>"

definition calculateNTS :: "runtime \<Rightarrow> string SocialData list \<Rightarrow> js_error + NTSResults" where
  "calculateNTS rt data =
     (if length data = 0 then Inr notAvailable
      else
        let (intersectionMap, globalEngagements) = foldl (collect rt) ([], []) data;
            baselineAverage = average globalEngagements
        in case rankings rt intersectionMap of
             [] \<Rightarrow> Inl TypeError
           | best # others \<Rightarrow>
               let secondary = (case others of [] \<Rightarrow> best | second # _ \<Rightarrow> second);
                   lift = js_mul (js_div (js_sub (snd best) baselineAverage) baselineAverage) (Fin 100)
               in case (split_on CHR ''|'' (fst best), split_on CHR ''|'' (fst secondary)) of
                    (bestDayName # bestHourRaw # _, secDay # secHourRaw # _) \<Rightarrow>
                      Inr \<lparr> bestDay = bestDayName,
                            bestHour = padStart 2 CHR ''0'' bestHourRaw @ '':00'',
                            engagementScore = Math_round (snd best),
                            liftPercentage = Math_round lift,
                            secondaryWindow = secDay @ '' @ '' @ padStart 2 CHR ''0'' secHourRaw @ '':00'' \<rparr>
                  | _ \<Rightarrow> Inl TypeError)"

section \<open>generateNeuralForecast\<close>

definition getTime :: "runtime \<Rightarrow> string \<Rightarrow> jsnum" where
  "getTime rt s = (case parseTime rt s of None \<Rightarrow> NaN | Some t \<Rightarrow> Fin (of_int t))"

definition byTime :: "runtime \<Rightarrow> string SocialData \<Rightarrow> string SocialData \<Rightarrow> jsnum" where
  "byTime rt a b = js_sub (getTime rt (Date a)) (getTime rt (Date b))"

definition historical :: "string SocialData \<Rightarrow> ForecastPoint" where
  "historical d = \<lparr> date = hd (split_on CHR ''T'' (Date d)), actual = Some (Engagement d),
     predicted = None \<rparr>"

text \<open>\<open>p.actual || dflt\<close>: an absent \<open>actual\<close> is \<open>undefined\<close>, which is falsy.\<close>

definition actualOr :: "ForecastPoint \<Rightarrow> jsnum \<Rightarrow> jsnum" where
  "actualOr p dflt = (case actual p of None \<Rightarrow> dflt | Some v \<Rightarrow> js_or_num v dflt)"

definition lastVal :: "ForecastPoint list \<Rightarrow> jsnum" where
  "lastVal points = actualOr (last points) (Fin 100)"

definition trend :: "ForecastPoint list \<Rightarrow> jsnum" where
  "trend points =
     js_div (js_sub (lastVal points) (actualOr (hd points) (Fin 0))) (Fin (of_nat (length points)))"

definition predictedValue :: "jsnum \<Rightarrow> jsnum \<Rightarrow> nat \<Rightarrow> rat \<Rightarrow> jsnum" where
  "predictedValue lv tr i r =
     Math_max0 (js_add (js_add lv (js_mul tr (Fin (of_nat i))))
                       (js_sub (js_mul (Fin r) (Fin 20)) (Fin 10)))"

text \<open>
  \<open>nextDate.toISOString().split('T')[0]\<close> after \<open>setDate(lastDate.getDate() + i)\<close>:
  \<open>toISOString\<close> throws a \<open>RangeError\<close> on an invalid date.
\<close>

definition futureDate :: "runtime \<Rightarrow> int option \<Rightarrow> nat \<Rightarrow> js_error + string" where
  "futureDate rt lastDate i =
     (case lastDate of
        None \<Rightarrow> Inl RangeError
      | Some t \<Rightarrow> (case plusDays rt t i of None \<Rightarrow> Inl RangeError | Some t' \<Rightarrow> Inr (isoDate rt t')))"

text \<open>The loop \<open>for (let i = 1; i <= 10; i++)\<close>, over the values of \<open>i\<close> still to come.\<close>

fun pushFuture :: "runtime \<Rightarrow> int option \<Rightarrow> jsnum \<Rightarrow> jsnum \<Rightarrow> nat list \<Rightarrow> ForecastPoint list
    \<Rightarrow> js_error + ForecastPoint list" where
  "pushFuture rt lastDate lv tr [] points = Inr points"
| "pushFuture rt lastDate lv tr (i # rest) points =
     (case futureDate rt lastDate i of
        Inl e \<Rightarrow> Inl e
      | Inr d \<Rightarrow>
          pushFuture rt lastDate lv tr rest
            (points @ [\<lparr> date = d, actual = None,
                          predicted = Some (predictedValue lv tr i (random rt i)) \<rparr>]))"

definition generateNeuralForecast :: "runtime \<Rightarrow> string SocialData list
    \<Rightarrow> js_error + ForecastPoint list" where
  "generateNeuralForecast rt data =
     (if length data < 2 then Inr []
      else
        let sorted = arraySort rt (byTime rt) data;
            lastDate = parseTime rt (Date (last sorted));
            points = map historical sorted
        in pushFuture rt lastDate (lastVal points) (trend points) [1 ..< 11] points)"

text \<open>
  When no \<open>toISOString\<close> of the loop throws: the date of the last sorted record is
  valid, and so is each of the ten days after it.
\<close>

definition projectable :: "runtime \<Rightarrow> string SocialData list \<Rightarrow> bool" where
  "projectable rt data \<longleftrightarrow>
     (case parseTime rt (Date (last (arraySort rt (byTime rt) data))) of
        None \<Rightarrow> False
      | Some t \<Rightarrow> list_all (\<lambda>i. plusDays rt t i \<noteq> None) [1 ..< 11])"

text \<open>The point the loop pushes for \<open>i\<close> when its date is valid.\<close>

definition futurePoint :: "runtime \<Rightarrow> int option \<Rightarrow> jsnum \<Rightarrow> jsnum \<Rightarrow> nat \<Rightarrow> ForecastPoint" where
  "futurePoint rt lastDate lv tr i =
     \<lparr> date = projr (futureDate rt lastDate i), actual = None,
       predicted = Some (predictedValue lv tr i (random rt i)) \<rparr>"

section \<open>generateRichSummary\<close>

text \<open>
  Characters are the code units below 256. \<open>trim\<close> removes the white space and line
  terminators of ECMAScript among them from both ends.
\<close>

definition isWhiteSpace :: "char \<Rightarrow> bool" where
  "isWhiteSpace c \<longleftrightarrow> c \<in> set [CHR 0x09, CHR 0x0A, CHR 0x0B, CHR 0x0C, CHR 0x0D, CHR 0x20, CHR 0xA0]"

definition trim :: "string \<Rightarrow> string" where
  "trim s = rev (dropWhile isWhiteSpace (rev (dropWhile isWhiteSpace s)))"

text \<open>
  \<open>platformStats\<close> and \<open>sectorStats\<close> are objects keyed by free text.
  \<open>Object.entries\<close> lists the keys that are array indices first, in numeric order, then
  the others in the order of insertion. A key that names a member of
  \<open>Object.prototype\<close> (such as \<open>constructor\<close>) reads as that member before its first
  assignment; such keys are not modelled.
\<close>

type_synonym stats = "(string \<times> jsnum) list"

definition isDigit :: "char \<Rightarrow> bool" where
  "isDigit c \<longleftrightarrow> 48 \<le> (of_char c :: nat) \<and> (of_char c :: nat) \<le> 57"

definition indexValue :: "string \<Rightarrow> nat" where
  "indexValue s = foldl (\<lambda>n c. 10 * n + (of_char c - 48)) 0 s"

definition isArrayIndex :: "string \<Rightarrow> bool" where
  "isArrayIndex s \<longleftrightarrow>
     s \<noteq> [] \<and> list_all isDigit s \<and> (hd s \<noteq> CHR ''0'' \<or> length s = 1) \<and> indexValue s < 2 ^ 32 - 1"

definition objectEntries :: "stats \<Rightarrow> stats" where
  "objectEntries m =
     sort_key (\<lambda>e. indexValue (fst e)) (filter (\<lambda>e. isArrayIndex (fst e)) m)
     @ filter (\<lambda>e. \<not> isArrayIndex (fst e)) m"

definition addStat :: "stats \<Rightarrow> string \<Rightarrow> jsnum \<Rightarrow> stats" where
  "addStat acc k e =
     AList.update k (js_add (case map_of acc k of None \<Rightarrow> Fin 0 | Some v \<Rightarrow> js_or_num v (Fin 0)) e) acc"

definition topEntry :: "runtime \<Rightarrow> stats \<Rightarrow> (string \<times> jsnum) option" where
  "topEntry rt m =
     (case arraySort rt (\<lambda>a b. js_sub (snd b) (snd a)) (objectEntries m) of
        [] \<Rightarrow> None | e # _ \<Rightarrow> Some e)"

definition unavailable :: string where
  "unavailable = ''Fleet data unavailable.''"

definition generateRichSummary :: "runtime \<Rightarrow> string SocialData list \<Rightarrow> NTSResults \<Rightarrow> string" where
  "generateRichSummary rt data nts =
     (if length data = 0 then unavailable
      else
        let totalEng = foldl (\<lambda>a b. js_add a (Engagement b)) (Fin 0) data;
            avgEng = js_div totalEng (Fin (of_nat (length data)));
            totalImp = foldl (\<lambda>a b. js_add a (Impressions b)) (Fin 0) data;
            platformStats = foldl (\<lambda>acc curr. addStat acc (Platform curr) (Engagement curr)) [] data;
            sectorStats = foldl (\<lambda>acc curr. addStat acc (Sector curr) (Engagement curr)) [] data;
            topPlatform = topEntry rt platformStats;
            topSector = topEntry rt sectorStats;
            nl = [CHR 0x0A] @ ''    ''
        in trim (
          nl @ ''Mission Status: Active'' @
          nl @ ''Total Neural Packets Analyzed: '' @ natToString (length data) @
          nl @ ''Global Fleet Engagement: '' @ toLocaleString rt totalEng
             @ '' (Avg: '' @ toFixed1 rt avgEng @ '')'' @
          nl @ ''Total Neural Reach (Impressions): '' @ toLocaleString rt totalImp @
          nl @ ''Top Sector: '' @ (case topSector of None \<Rightarrow> ''None'' | Some e \<Rightarrow> fst e)
             @ '' ('' @ (case topSector of None \<Rightarrow> ''0'' | Some e \<Rightarrow> numToString rt (snd e)) @ '' eng)'' @
          nl @ ''Dominant Platform: '' @ (case topPlatform of None \<Rightarrow> ''None'' | Some e \<Rightarrow> fst e)
             @ '' ('' @ (case topPlatform of None \<Rightarrow> ''0'' | Some e \<Rightarrow> numToString rt (snd e)) @ '' eng)'' @
          nl @ ''Optimal Sync Window (NTS): '' @ bestDay nts @ '' at '' @ bestHour nts @
          nl @ ''NTS Lift Potential: '' @ numToString rt (liftPercentage nts) @ ''% above baseline.'' @
          nl @ ''Secondary Sync: '' @ secondaryWindow nts @
          [CHR 0x0A] @ ''  ''))"

section \<open>The sections of a briefing report (startBriefing)\<close>

text \<open>
  \<open>startBriefing\<close> splits the text of the report with the regular expression
  \<open>/\[([A-Z_]+)\]([\s\S]*?)(?=\[[A-Z_]+\]|$)/g\<close>. A marker is an opening bracket, a
  non-empty run of capitals and underscores taken as long as it goes, and a closing
  bracket; \<open>markerAt s\<close> gives the title of the marker \<open>s\<close> starts with and what follows
  it.
\<close>

definition isTitleChar :: "char \<Rightarrow> bool" where
  "isTitleChar c \<longleftrightarrow> (65 \<le> (of_char c :: nat) \<and> (of_char c :: nat) \<le> 90) \<or> c = CHR ''_''"

definition markerAt :: "string \<Rightarrow> (string \<times> string) option" where
  "markerAt s =
     (case s of
        [] \<Rightarrow> None
      | c # cs \<Rightarrow>
          if c = CHR ''['' then
            (case dropWhile isTitleChar cs of
               [] \<Rightarrow> None
             | d # ds \<Rightarrow>
                 if takeWhile isTitleChar cs \<noteq> [] \<and> d = CHR '']''
                 then Some (takeWhile isTitleChar cs, ds) else None)
          else None)"

text \<open>
  The lazy body \<open>[\s\S]*?\<close> takes characters until a marker starts or the text ends
  (the lookahead); the result is the body and the text left.
\<close>

fun lazyBody :: "string \<Rightarrow> string \<times> string" where
  "lazyBody [] = ([], [])"
| "lazyBody (c # cs) =
     (if markerAt (c # cs) \<noteq> None then ([], c # cs)
      else (c # fst (lazyBody cs), snd (lazyBody cs)))"

text \<open>
  The global match: every match starts at the next marker and ends where its lazy body
  ends, and the search goes on from there.
\<close>

function matchAll :: "string \<Rightarrow> string list" where
  "matchAll [] = []"
| "matchAll (c # cs) =
     (case markerAt (c # cs) of
        None \<Rightarrow> matchAll cs
      | Some (t, r) \<Rightarrow> (''['' @ t @ '']'' @ fst (lazyBody r)) # matchAll (snd (lazyBody r)))"
  by pat_completeness auto
termination
proof (relation "measure length")
  fix c cs x2 t r
  assume m: "markerAt (c # cs) = Some x2" "(t, r) = x2"
  have body: "length (snd (lazyBody u)) \<le> length u" for u
    by (induction u) auto
  from m obtain d where "dropWhile isTitleChar cs = d # r"
    by (auto simp: markerAt_def split: if_splits list.splits)
  then have "length r < length (dropWhile isTitleChar cs)"
    by simp
  also have "\<dots> \<le> length cs"
    by (rule length_dropWhile_le)
  finally have "length r < length (c # cs)"
    by simp
  with body [of r] show "(snd (lazyBody r), c # cs) \<in> measure length"
    by simp
qed simp_all

text \<open>\<open>text.match(re)\<close> with the global flag is \<open>null\<close> when nothing matches.\<close>

definition sectionMatches :: "string \<Rightarrow> string list option" where
  "sectionMatches text = (case matchAll text of [] \<Rightarrow> None | m # ms \<Rightarrow> Some (m # ms))"

text \<open>
  Inside one match, \<open>match(/\[([A-Z_]+)\]/)\<close> finds the first marker and
  \<open>replace(/\[[A-Z_]+\]/, '')\<close> removes it.
\<close>

fun firstTitle :: "string \<Rightarrow> string option" where
  "firstTitle [] = None"
| "firstTitle (c # cs) =
     (case markerAt (c # cs) of None \<Rightarrow> firstTitle cs | Some (t, r) \<Rightarrow> Some t)"

fun removeFirstMarker :: "string \<Rightarrow> string" where
  "removeFirstMarker [] = []"
| "removeFirstMarker (c # cs) =
     (case markerAt (c # cs) of None \<Rightarrow> c # removeFirstMarker cs | Some (t, r) \<Rightarrow> r)"

definition sectionTitle :: "string \<Rightarrow> string" where
  "sectionTitle m =
     (case firstTitle m of None \<Rightarrow> ''GENERAL'' | Some t \<Rightarrow> if t \<noteq> [] then t else ''GENERAL'')"

text \<open>
  \<open>sections\<close> is an object keyed by titles, which are capitals and underscores: no
  title is an array index or an inherited name, so the association list in the order of
  insertion is the object.
\<close>

definition splitSections :: "string \<Rightarrow> (string \<times> string) list" where
  "splitSections reportRawText =
     (case sectionMatches reportRawText of
        Some ms \<Rightarrow>
          foldl (\<lambda>sections m. AList.update (sectionTitle m) (trim (removeFirstMarker m)) sections) [] ms
      | None \<Rightarrow> [(''EXECUTIVE_SUMMARY'', reportRawText)])"

text \<open>Whether a marker starts anywhere in the text.\<close>

fun hasMarker :: "string \<Rightarrow> bool" where
  "hasMarker [] = False"
| "hasMarker (c # cs) = (markerAt (c # cs) \<noteq> None \<or> hasMarker cs)"

section \<open>The input array in the store\<close>

text \<open>
  The three analyses receive a reference to the array of records. To say what a call
  does to that array, arrays of records live in a store, at addresses; \<open>fresh\<close> is
  the next address not in use. \<open>[...data]\<close> allocates a new array with the elements of
  \<open>data\<close>, and \<open>sort\<close> sorts the array it is called on in place. The arrays the
  functions build for themselves hold numbers and points, not records, and stay values.
\<close>

record store =
  arrays :: "nat \<Rightarrow> string SocialData list"
  fresh :: nat

definition spread :: "store \<Rightarrow> nat \<Rightarrow> nat \<times> store" where
  "spread st a =
     (fresh st, st\<lparr> arrays := (arrays st)(fresh st := arrays st a), fresh := Suc (fresh st) \<rparr>)"

definition sortInPlace :: "runtime \<Rightarrow> (string SocialData \<Rightarrow> string SocialData \<Rightarrow> jsnum) \<Rightarrow> store
    \<Rightarrow> nat \<Rightarrow> store" where
  "sortInPlace rt cmp st a = st\<lparr> arrays := (arrays st)(a := arraySort rt cmp (arrays st a)) \<rparr>"

text \<open>
  \<open>calculateNTS\<close> and \<open>generateRichSummary\<close> only read \<open>data\<close>: its \<open>length\<close>, and its
  elements through \<open>forEach\<close> and \<open>reduce\<close>, whose callbacks read fields of the element.
\<close>

definition calculateNTS_in :: "runtime \<Rightarrow> store \<Rightarrow> nat \<Rightarrow> (js_error + NTSResults) \<times> store" where
  "calculateNTS_in rt st data = (calculateNTS rt (arrays st data), st)"

definition generateRichSummary_in :: "runtime \<Rightarrow> store \<Rightarrow> nat \<Rightarrow> NTSResults \<Rightarrow> string \<times> store" where
  "generateRichSummary_in rt st data nts = (generateRichSummary rt (arrays st data) nts, st)"

definition generateNeuralForecast_in :: "runtime \<Rightarrow> store \<Rightarrow> nat
    \<Rightarrow> (js_error + ForecastPoint list) \<times> store" where
  "generateNeuralForecast_in rt st data =
     (if length (arrays st data) < 2 then (Inr [], st)
      else
        let (copy, st1) = spread st data;
            st2 = sortInPlace rt (byTime rt) st1 copy;
            sorted = arrays st2 copy;
            lastDate = parseTime rt (Date (last sorted));
            points = map historical sorted
        in (pushFuture rt lastDate (lastVal points) (trend points) [1 ..< 11] points, st2))"

section \<open>What the specification says, for comparison\<close>

text \<open>
  The field constraints of a canonical record, in the words of the specification: the
  five counts are non-negative numbers and the hour is an integer from 0 to 23.
\<close>

fun spec_count :: "jsnum \<Rightarrow> bool" where
  "spec_count (Fin a) = (0 \<le> a)"
| "spec_count x = False"

fun spec_hour :: "jsnum \<Rightarrow> bool" where
  "spec_hour (Fin a) = (of_int \<lfloor>a\<rfloor> = a \<and> 0 \<le> a \<and> a \<le> 23)"
| "spec_hour x = False"

definition spec_fieldConstraints :: "jsval SocialData \<Rightarrow> bool" where
  "spec_fieldConstraints d \<longleftrightarrow>
     spec_count (Engagement d) \<and> spec_count (Impressions d) \<and> spec_count (Shares d) \<and>
     spec_count (Likes d) \<and> spec_count (Comments d) \<and> spec_hour (Hour d)"

text \<open>
  The trend in the words of the specification: last minus first engagement of the
  sorted points over their number, a point without a value counting as 0 at both ends.
\<close>

definition spec_trend :: "ForecastPoint list \<Rightarrow> jsnum" where
  "spec_trend points =
     js_div (js_sub (actualOr (last points) (Fin 0)) (actualOr (hd points) (Fin 0)))
            (Fin (of_nat (length points)))"

text \<open>
  The bounds of the specification for the \<open>i\<close>-th predicted value, from the last
  engagement \<open>l\<close> and the trend \<open>t\<close>: \<open>max(0, l + t * i - 10)\<close> and
  \<open>l + t * i + 10\<close>.
\<close>

definition spec_lower :: "jsnum \<Rightarrow> jsnum \<Rightarrow> nat \<Rightarrow> jsnum" where
  "spec_lower l t i = Math_max0 (js_sub (js_add l (js_mul t (Fin (of_nat i)))) (Fin 10))"

definition spec_upper :: "jsnum \<Rightarrow> jsnum \<Rightarrow> nat \<Rightarrow> jsnum" where
  "spec_upper l t i = js_add (js_add l (js_mul t (Fin (of_nat i)))) (Fin 10)"

section \<open>A runtime and data for the examples\<close>

text \<open>
  A runtime in the UTC time zone. Its parser knows the dates the examples use, its
  calendar is exact on January 2024, its conversion of strings to numbers is exact on
  the decimal integers with an optional minus sign and \<open>NaN\<close> elsewhere, its random
  source always draws one half, the three formatters, which no example runs, are
  constant, and its sort leaves an array in the order given when the comparator is not
  consistent.
\<close>

definition sampleNumber :: "string \<Rightarrow> jsnum" where
  "sampleNumber s =
     (case s of
        [] \<Rightarrow> Fin 0
      | c # cs \<Rightarrow>
          if list_all isDigit (c # cs) then Fin (of_nat (indexValue (c # cs)))
          else if c = CHR ''-'' \<and> cs \<noteq> [] \<and> list_all isDigit cs then Fin (- of_nat (indexValue cs))
          else NaN)"

definition sampleRuntime :: runtime where
  "sampleRuntime =
     \<lparr> parseTime = map_of [(''2024-01-01'', 1704067200000), (''2024-01-02'', 1704153600000),
                           (''2024-01-03'', 1704240000000),
                           (''2024-01-01T09:00:00Z'', 1704099600000)],
       localDay = (\<lambda>t. nat ((t div 86400000 + 4) mod 7)),
       localHours = (\<lambda>t. nat ((t div 3600000) mod 24)),
       plusDays = (\<lambda>t i. if \<bar>t + 86400000 * int i\<bar> \<le> 8640000000000000
                           then Some (t + 86400000 * int i) else None),
       isoDate = (\<lambda>t. ''2024-01-'' @ padStart 2 CHR ''0'' (natToString (nat (t div 86400000 - 19722)))),
       nowISO = (\<lambda>i. ''2024-01-01T00:00:00.000Z''),
       stringToNumber = sampleNumber,
       fractionToString = (\<lambda>a. ''?''),
       toLocaleString = (\<lambda>n. ''?''),
       toFixed1 = (\<lambda>n. ''?''),
       random = (\<lambda>i. 1 / 2),
       sortOrder = (\<lambda>c n. [0 ..< n]) \<rparr>"

definition sampleRecord :: "string \<Rightarrow> rat \<Rightarrow> rat \<Rightarrow> string SocialData" where
  "sampleRecord d h e =
     \<lparr> Date = d, Engagement = Fin e, Impressions = Fin 0, Shares = Fin 0, Likes = Fin 0,
       Comments = Fin 0, Sector = ''General'', Platform = ''Unknown'', Hour = Fin h \<rparr>"

text \<open>
  Rows as the parser of delimited text gives them, every value a string: a row with a
  timestamp under the lower-cased key only, a row with a negative count and an hour of
  99, and a row with a count that is no number. And a row built by hand, with the
  number 0 as its hour.
\<close>

definition sampleRows :: "row list" where
  "sampleRows =
     [[(''date'', JSString ''2024-01-01T09:00:00Z''), (''engagement'', JSString ''42'')],
      [(''Date'', JSString ''2024-01-01T09:00:00Z''), (''Engagement'', JSString ''-5''),
       (''Hour'', JSString ''99'')],
      [(''Date'', JSString ''2024-01-01T09:00:00Z''), (''Likes'', JSString ''many'')]]"

definition midnightRow :: row where
  "midnightRow = [(''Date'', JSString ''2024-01-01T09:00:00Z''), (''Hour'', JSNumber (Fin 0))]"

text \<open>
  Inputs for the forecaster: two records with no engagement at all, given out of order;
  two whose engagement falls from 1000 to 5; two whose dates do not parse; two whose
  engagement is infinite; and three and four of which the second has a date that does not
  parse, so that the comparator by time is not consistent on them.
\<close>

definition flatPair :: "string SocialData list" where
  "flatPair = [sampleRecord ''2024-01-02'' 10 0, sampleRecord ''2024-01-01'' 9 0]"

definition fallingPair :: "string SocialData list" where
  "fallingPair = [sampleRecord ''2024-01-01'' 9 1000, sampleRecord ''2024-01-02'' 10 5]"

definition undatedPair :: "string SocialData list" where
  "undatedPair = [sampleRecord ''not a date'' 9 10, sampleRecord ''soon'' 10 20]"

definition infinitePair :: "string SocialData list" where
  "infinitePair =
     [(sampleRecord ''2024-01-01'' 9 0)\<lparr> Engagement := PosInf \<rparr>,
      (sampleRecord ''2024-01-02'' 10 0)\<lparr> Engagement := PosInf \<rparr>]"

definition mixedTriple :: "string SocialData list" where
  "mixedTriple =
     [sampleRecord ''2024-01-02'' 10 5, sampleRecord ''not a date'' 9 20,
      sampleRecord ''2024-01-01'' 9 30]"

definition mixedFour :: "string SocialData list" where
  "mixedFour =
     [sampleRecord ''2024-01-02'' 10 5, sampleRecord ''not a date'' 9 0,
      sampleRecord ''2024-01-01'' 9 20, sampleRecord ''2024-01-03'' 11 30]"

text \<open>A store with one array, the records without engagement, at address 0.\<close>

definition sampleStore :: store where
  "sampleStore = \<lparr> arrays = (\<lambda>a. if a = 0 then flatPair else []), fresh = 1 \<rparr>"

section \<open>The sync analyzer\<close>

lemma numToString_9: "numToString rt (Fin 9) = ''9''"
  by (simp add: numToString_def natToString.simps)

lemma numToString_10: "numToString rt (Fin 10) = ''10''"
  by (simp add: numToString_def natToString.simps)

text \<open>
  Claim C7. On the empty input \<open>calculateNTS\<close> does not fail: it returns the result
  whose \<open>bestDay\<close>, \<open>bestHour\<close> and \<open>secondaryWindow\<close> are the marker \<open>N/A\<close> and whose
  \<open>engagementScore\<close> and \<open>liftPercentage\<close> are 0.
\<close>

theorem calculateNTS_empty:
  "calculateNTS rt [] =
     Inr \<lparr> bestDay = ''N/A'', bestHour = ''N/A'', engagementScore = Fin 0,
           liftPercentage = Fin 0, secondaryWindow = ''N/A'' \<rparr>"
  by (simp add: calculateNTS_def notAvailable_def)

text \<open>
  Claim C3. Two records that fall on a Monday with hour 9 and engagements 100 and 200,
  and one that falls on a Tuesday with hour 10 and engagement 50, give the best window
  Monday \<open>09:00\<close> with score 150 and lift 29, over the baseline \<open>(100 + 200 + 50) / 3\<close>.
  A record falls on the day the runtime's calendar gives for its parsed date.
\<close>

theorem calculateNTS_example:
  assumes a: "parseTime rt (Date a) = Some ta" "localDay rt ta = 1" "Hour a = Fin 9" "Engagement a = Fin 100"
      and b: "parseTime rt (Date b) = Some tb" "localDay rt tb = 1" "Hour b = Fin 9" "Engagement b = Fin 200"
      and c: "parseTime rt (Date c) = Some tc" "localDay rt tc = 2" "Hour c = Fin 10" "Engagement c = Fin 50"
  shows "calculateNTS rt [a, b, c] =
           Inr \<lparr> bestDay = ''Monday'', bestHour = ''09:00'', engagementScore = Fin 150,
                 liftPercentage = Fin 29, secondaryWindow = ''Tuesday @ 10:00'' \<rparr>
         \<and> average (map Engagement [a, b, c]) = Fin ((100 + 200 + 50) / 3)"
proof -
  have ka: "windowKey rt a = ''Monday|9''"
    using a by (simp add: windowKey_def dayName_def weekDays_def numToString_9)
  have kb: "windowKey rt b = ''Monday|9''"
    using b by (simp add: windowKey_def dayName_def weekDays_def numToString_9)
  have kc: "windowKey rt c = ''Tuesday|10''"
    using c by (simp add: windowKey_def dayName_def weekDays_def numToString_10)
  have groups: "foldl (collect rt) ([], []) [a, b, c] =
      ([(''Monday|9'', [Fin 100, Fin 200]), (''Tuesday|10'', [Fin 50])], [Fin 100, Fin 200, Fin 50])"
    using a b c by (simp add: collect_def ka kb kc pushInto_def)
  have ranked: "rankings rt [(''Monday|9'', [Fin 100, Fin 200]), (''Tuesday|10'', [Fin 50])] =
      [(''Monday|9'', Fin 150), (''Tuesday|10'', Fin 50)]"
    by (simp add: rankings_def arraySort_def consistentOn_def stableSort_def average_def sumOf_def
        js_sub_def)
  have score: "Math_round (Fin 150) = Fin 150"
    by code_simp
  have lift: "Math_round (js_mul (js_div (js_sub (Fin 150) (average [Fin 100, Fin 200, Fin 50]))
      (average [Fin 100, Fin 200, Fin 50])) (Fin 100)) = Fin 29"
    by code_simp
  have nts: "calculateNTS rt [a, b, c] =
           Inr \<lparr> bestDay = ''Monday'', bestHour = ''09:00'', engagementScore = Fin 150,
                 liftPercentage = Fin 29, secondaryWindow = ''Tuesday @ 10:00'' \<rparr>"
    unfolding calculateNTS_def groups
    by (simp add: ranked score lift padStart_def del: Math_round.simps)
  have "average (map Engagement [a, b, c]) = Fin ((100 + 200 + 50) / 3)"
    using a b c by (simp add: average_def sumOf_def)
  with nts show ?thesis
    by simp
qed

theorem calculateNTS_example_witness:
  "calculateNTS sampleRuntime
     [sampleRecord ''2024-01-01'' 9 100, sampleRecord ''2024-01-01'' 9 200,
      sampleRecord ''2024-01-02'' 10 50] =
     Inr \<lparr> bestDay = ''Monday'', bestHour = ''09:00'', engagementScore = Fin 150,
           liftPercentage = Fin 29, secondaryWindow = ''Tuesday @ 10:00'' \<rparr>
   \<and> average (map Engagement [sampleRecord ''2024-01-01'' 9 100, sampleRecord ''2024-01-01'' 9 200,
      sampleRecord ''2024-01-02'' 10 50]) = Fin ((100 + 200 + 50) / 3)"
  by (rule calculateNTS_example [where ta = 1704067200000 and tb = 1704067200000 and tc = 1704153600000])
     (simp_all add: sampleRuntime_def sampleRecord_def)

section \<open>The summarizer\<close>

text \<open>
  Claim C8. On the empty input \<open>generateRichSummary\<close> returns the fixed text
  \<open>Fleet data unavailable.\<close>, whatever the \<open>nts\<close> argument is.
\<close>

theorem generateRichSummary_empty:
  "generateRichSummary rt [] nts = ''Fleet data unavailable.''"
  by (simp add: generateRichSummary_def unavailable_def)

section \<open>The sections of a report\<close>

lemma matchAll_no_marker: "\<not> hasMarker s \<Longrightarrow> matchAll s = []"
  by (induction s) (auto split: option.splits)

text \<open>
  Claim C9, as the code has it. The text \<open>[EXECUTIVE_SUMMARY]Foo[KEY_INSIGHTS]Bar\<close>
  splits into the section \<open>EXECUTIVE_SUMMARY\<close> with text \<open>Foo\<close> and the section
  \<open>KEY_INSIGHTS\<close> with text \<open>Bar\<close>. A text in which no marker starts becomes one
  section, whole and untrimmed, under the key \<open>EXECUTIVE_SUMMARY\<close>.
\<close>

theorem splitSections_report:
  "splitSections ''[EXECUTIVE_SUMMARY]Foo[KEY_INSIGHTS]Bar'' =
     [(''EXECUTIVE_SUMMARY'', ''Foo''), (''KEY_INSIGHTS'', ''Bar'')]
   \<and> (\<not> hasMarker reportRawText \<longrightarrow>
        splitSections reportRawText = [(''EXECUTIVE_SUMMARY'', reportRawText)])"
proof
  show "splitSections ''[EXECUTIVE_SUMMARY]Foo[KEY_INSIGHTS]Bar'' =
     [(''EXECUTIVE_SUMMARY'', ''Foo''), (''KEY_INSIGHTS'', ''Bar'')]"
    by code_simp
  show "\<not> hasMarker reportRawText \<longrightarrow>
        splitSections reportRawText = [(''EXECUTIVE_SUMMARY'', reportRawText)]"
    by (simp add: splitSections_def sectionMatches_def matchAll_no_marker)
qed

theorem splitSections_report_witness:
  "\<not> hasMarker ''All sectors nominal. [note]''
   \<and> splitSections ''All sectors nominal. [note]'' =
       [(''EXECUTIVE_SUMMARY'', ''All sectors nominal. [note]'')]"
proof -
  have h: "\<not> hasMarker ''All sectors nominal. [note]''"
    by code_simp
  with splitSections_report [of "''All sectors nominal. [note]''"] show ?thesis
    by simp
qed

text \<open>
  A text without markers is not filed under a key \<open>general\<close>, in either case of the
  letters: here it is the only section, under \<open>EXECUTIVE_SUMMARY\<close>.
\<close>

theorem splitSections_general_counterexample:
  "\<not> hasMarker ''  Fleet ok '' \<and>
   splitSections ''  Fleet ok '' = [(''EXECUTIVE_SUMMARY'', ''  Fleet ok '')] \<and>
   map_of (splitSections ''  Fleet ok '') ''general'' = None \<and>
   map_of (splitSections ''  Fleet ok '') ''GENERAL'' = None"
  by code_simp

section \<open>The forecaster\<close>

lemma length_js_insert: "length (js_insert cmp x ys) = Suc (length ys)"
  by (induction ys) auto

lemma length_foldl_js_insert:
  "length (foldl (\<lambda>acc x. js_insert cmp x acc) acc xs) = length acc + length xs"
  by (induction xs arbitrary: acc) (auto simp: length_js_insert)

lemma length_stableSort: "length (stableSort cmp xs) = length xs"
  by (simp add: stableSort_def length_foldl_js_insert)

lemma length_arraySort:
  "sorts_by_permuting rt \<Longrightarrow> length (arraySort rt cmp xs) = length xs"
  by (simp add: arraySort_def length_stableSort sorts_by_permuting_def)

text \<open>
  When every date parses, the comparator by time is consistent, and the sorted copy is
  the stable chronological one on every engine.
\<close>

lemma byTime_consistent:
  assumes "\<forall>d\<in>set data. parseTime rt (Date d) \<noteq> None"
  shows "consistentOn (byTime rt) data"
proof -
  have sign: "compareSign (byTime rt a b) =
      (if the (parseTime rt (Date a)) < the (parseTime rt (Date b)) then - 1
       else if the (parseTime rt (Date a)) = the (parseTime rt (Date b)) then 0 else 1)"
    if "a \<in> set data" "b \<in> set data" for a b
  proof -
    from that assms obtain ta tb
      where "parseTime rt (Date a) = Some ta" "parseTime rt (Date b) = Some tb"
      by (metis not_None_eq)
    then show ?thesis
      by (simp add: byTime_def getTime_def js_sub_def)
  qed
  show ?thesis
    unfolding consistentOn_def list_all_iff by (auto simp: sign split: if_splits)
qed

lemma arraySort_parsed:
  "\<forall>d\<in>set data. parseTime rt (Date d) \<noteq> None \<Longrightarrow>
   arraySort rt (byTime rt) data = stableSort (byTime rt) data"
  by (simp add: arraySort_def byTime_consistent)

lemma set_js_insert: "set (js_insert cmp x ys) = insert x (set ys)"
  by (induction ys) auto

lemma set_foldl_js_insert:
  "set (foldl (\<lambda>acc x. js_insert cmp x acc) acc xs) = set acc \<union> set xs"
  by (induction xs arbitrary: acc) (auto simp: set_js_insert)

lemma set_stableSort: "set (stableSort cmp xs) = set xs"
  by (simp add: stableSort_def set_foldl_js_insert)

lemma byTime_positive:
  "parseTime rt (Date y) = Some ty \<Longrightarrow> parseTime rt (Date x) = Some tx \<Longrightarrow>
   js_positive (byTime rt y x) \<longleftrightarrow> tx < ty"
  by (simp add: byTime_def getTime_def js_sub_def)

lemma js_insert_chronological:
  assumes "\<forall>d\<in>set (x # ys). parseTime rt (Date d) \<noteq> None"
      and "sorted_wrt (\<lambda>a b. the (parseTime rt (Date a)) \<le> the (parseTime rt (Date b))) ys"
  shows "sorted_wrt (\<lambda>a b. the (parseTime rt (Date a)) \<le> the (parseTime rt (Date b)))
           (js_insert (byTime rt) x ys)"
  using assms
proof (induction ys)
  case Nil
  then show ?case by simp
next
  case (Cons y ys)
  from Cons.prems(1) obtain tx ty
    where t: "parseTime rt (Date x) = Some tx" "parseTime rt (Date y) = Some ty"
    by (metis list.set_intros(1,2) not_None_eq)
  show ?case
  proof (cases "tx < ty")
    case True
    with t Cons.prems show ?thesis
      by (auto simp: byTime_positive)
  next
    case False
    with t Cons show ?thesis
      by (auto simp: byTime_positive set_js_insert)
  qed
qed

lemma foldl_js_insert_chronological:
  assumes "\<forall>d\<in>set acc \<union> set xs. parseTime rt (Date d) \<noteq> None"
      and "sorted_wrt (\<lambda>a b. the (parseTime rt (Date a)) \<le> the (parseTime rt (Date b))) acc"
  shows "sorted_wrt (\<lambda>a b. the (parseTime rt (Date a)) \<le> the (parseTime rt (Date b)))
           (foldl (\<lambda>acc x. js_insert (byTime rt) x acc) acc xs)"
  using assms
proof (induction xs arbitrary: acc)
  case Nil
  then show ?case by simp
next
  case (Cons x xs)
  have "sorted_wrt (\<lambda>a b. the (parseTime rt (Date a)) \<le> the (parseTime rt (Date b)))
      (js_insert (byTime rt) x acc)"
    using Cons.prems by (intro js_insert_chronological) auto
  moreover have "\<forall>d\<in>set (js_insert (byTime rt) x acc) \<union> set xs. parseTime rt (Date d) \<noteq> None"
    using Cons.prems(1) by (auto simp: set_js_insert)
  ultimately show ?case
    using Cons.IH by simp
qed

text \<open>Then the sorted copy is in ascending order of time.\<close>

lemma arraySort_chronological:
  assumes "\<forall>d\<in>set data. parseTime rt (Date d) \<noteq> None"
  shows "sorted_wrt (\<lambda>a b. the (parseTime rt (Date a)) \<le> the (parseTime rt (Date b)))
           (arraySort rt (byTime rt) data)"
  using assms foldl_js_insert_chronological [of "[]" data rt]
  by (simp add: arraySort_parsed stableSort_def)

lemma futureDate_error: "futureDate rt ld i = Inl e \<Longrightarrow> e = RangeError"
  by (auto simp: futureDate_def split: option.splits)

lemma pushFuture_Inr:
  "\<forall>i\<in>set js. \<not> isl (futureDate rt ld i) \<Longrightarrow>
   pushFuture rt ld lv tr js pts = Inr (pts @ map (futurePoint rt ld lv tr) js)"
proof (induction js arbitrary: pts)
  case Nil
  then show ?case by simp
next
  case (Cons i js)
  then obtain d where d: "futureDate rt ld i = Inr d"
    by (cases "futureDate rt ld i") auto
  with Cons show ?case
    by (simp add: futurePoint_def)
qed

lemma pushFuture_Inl:
  "\<exists>i\<in>set js. isl (futureDate rt ld i) \<Longrightarrow> pushFuture rt ld lv tr js pts = Inl RangeError"
proof (induction js arbitrary: pts)
  case Nil
  then show ?case by simp
next
  case (Cons i js)
  show ?case
  proof (cases "futureDate rt ld i")
    case (Inl e)
    then show ?thesis
      using futureDate_error [of rt ld i e] by simp
  next
    case (Inr d)
    with Cons show ?thesis
      by auto
  qed
qed

lemma projectable_iff:
  "projectable rt data \<longleftrightarrow>
   (\<forall>i\<in>set [1 ..< 11]. \<not> isl (futureDate rt (parseTime rt (Date (last (arraySort rt (byTime rt) data)))) i))"
  unfolding projectable_def futureDate_def
  by (auto simp: list_all_iff split: option.splits)

lemma forecast_points:
  assumes "2 \<le> length data" "projectable rt data"
  shows "generateNeuralForecast rt data =
     Inr (map historical (arraySort rt (byTime rt) data)
          @ map (futurePoint rt (parseTime rt (Date (last (arraySort rt (byTime rt) data))))
                   (lastVal (map historical (arraySort rt (byTime rt) data)))
                   (trend (map historical (arraySort rt (byTime rt) data)))) [1 ..< 11])"
proof -
  from assms(2) have "\<forall>i\<in>set [1 ..< 11].
      \<not> isl (futureDate rt (parseTime rt (Date (last (arraySort rt (byTime rt) data)))) i)"
    by (simp only: projectable_iff)
  then show ?thesis
    using assms(1) by (simp add: generateNeuralForecast_def Let_def pushFuture_Inr del: upt_Suc)
qed

lemma forecast_raises:
  assumes "2 \<le> length data" "\<not> projectable rt data"
  shows "generateNeuralForecast rt data = Inl RangeError"
proof -
  from assms(2) have "\<exists>i\<in>set [1 ..< 11].
      isl (futureDate rt (parseTime rt (Date (last (arraySort rt (byTime rt) data)))) i)"
    by (simp only: projectable_iff) blast
  then show ?thesis
    using assms(1) by (simp add: generateNeuralForecast_def Let_def pushFuture_Inl del: upt_Suc)
qed

lemma sorts_by_permuting_sample: "sorts_by_permuting sampleRuntime"
  by (auto simp: sorts_by_permuting_def sampleRuntime_def)

text \<open>
  Claim C4, as the code has it. With no record or one, the forecast is the empty
  sequence. With two records or more, look at the record that \<open>sort\<close> leaves last in
  the copy (on any engine: the latest record when every date parses). When its date
  and the ten days after it are valid, the forecast has ten entries more than the
  input: the first entries, as many as the input has, carry an \<open>actual\<close> value and no
  \<open>predicted\<close> one, and the last ten a \<open>predicted\<close> value and no \<open>actual\<close> one. When one
  of these dates is not valid, the call throws a \<open>RangeError\<close> and returns nothing.
\<close>

theorem generateNeuralForecast_shape:
  assumes "sorts_by_permuting rt"
  shows
  "(length data < 2 \<longrightarrow> generateNeuralForecast rt data = Inr []) \<and>
   (2 \<le> length data \<and> projectable rt data \<longrightarrow>
      (\<exists>points. generateNeuralForecast rt data = Inr points \<and>
         length points = length data + 10 \<and>
         (\<forall>k<length data. actual (points ! k) \<noteq> None \<and> predicted (points ! k) = None) \<and>
         (\<forall>k<10. actual (points ! (length data + k)) = None \<and>
                  predicted (points ! (length data + k)) \<noteq> None))) \<and>
   (2 \<le> length data \<and> \<not> projectable rt data \<longrightarrow>
      generateNeuralForecast rt data = Inl RangeError)"
proof (intro conjI impI)
  assume "length data < 2"
  then show "generateNeuralForecast rt data = Inr []"
    by (simp add: generateNeuralForecast_def)
next
  assume h: "2 \<le> length data \<and> projectable rt data"
  let ?sorted = "arraySort rt (byTime rt) data"
  let ?f = "futurePoint rt (parseTime rt (Date (last ?sorted)))
              (lastVal (map historical ?sorted)) (trend (map historical ?sorted))"
  let ?points = "map historical ?sorted @ map ?f [1 ..< 11]"
  have ls: "length ?sorted = length data"
    using assms by (rule length_arraySort)
  have eq: "generateNeuralForecast rt data = Inr ?points"
    using h forecast_points [of data rt] by blast
  have len: "length ?points = length data + 10"
    by (simp add: ls)
  have hist: "\<forall>k<length data. actual (?points ! k) \<noteq> None \<and> predicted (?points ! k) = None"
    by (simp add: nth_append ls historical_def del: upt_Suc)
  have fut: "\<forall>k<10. actual (?points ! (length data + k)) = None \<and>
                  predicted (?points ! (length data + k)) \<noteq> None"
    by (simp add: nth_append ls futurePoint_def del: upt_Suc)
  from eq len hist fut
  show "\<exists>points. generateNeuralForecast rt data = Inr points \<and>
         length points = length data + 10 \<and>
         (\<forall>k<length data. actual (points ! k) \<noteq> None \<and> predicted (points ! k) = None) \<and>
         (\<forall>k<10. actual (points ! (length data + k)) = None \<and>
                  predicted (points ! (length data + k)) \<noteq> None)"
    by blast
next
  assume "2 \<le> length data \<and> \<not> projectable rt data"
  then show "generateNeuralForecast rt data = Inl RangeError"
    using forecast_raises [of data rt] by blast
qed

text \<open>
  The witness runs the three cases, and the second one twice: on records whose dates
  all parse, and on three records of which the second has no valid date, where the
  sample runtime leaves the array as it is and thirteen points come back.
\<close>

theorem generateNeuralForecast_shape_witness:
  "sorts_by_permuting sampleRuntime \<and>
   generateNeuralForecast sampleRuntime [] = Inr [] \<and>
   (2 \<le> length flatPair \<and> projectable sampleRuntime flatPair \<and>
      (\<exists>points. generateNeuralForecast sampleRuntime flatPair = Inr points \<and>
         length points = length flatPair + 10 \<and>
         (\<forall>k<length flatPair. actual (points ! k) \<noteq> None \<and> predicted (points ! k) = None) \<and>
         (\<forall>k<10. actual (points ! (length flatPair + k)) = None \<and>
                  predicted (points ! (length flatPair + k)) \<noteq> None))) \<and>
   (2 \<le> length mixedTriple \<and> \<not> consistentOn (byTime sampleRuntime) mixedTriple \<and>
      projectable sampleRuntime mixedTriple \<and>
      (\<exists>points. generateNeuralForecast sampleRuntime mixedTriple = Inr points \<and>
         length points = 13)) \<and>
   (2 \<le> length undatedPair \<and> \<not> projectable sampleRuntime undatedPair \<and>
      generateNeuralForecast sampleRuntime undatedPair = Inl RangeError)"
proof -
  have f: "2 \<le> length flatPair" "projectable sampleRuntime flatPair"
    by code_simp+
  have m: "2 \<le> length mixedTriple" "projectable sampleRuntime mixedTriple"
    "\<not> consistentOn (byTime sampleRuntime) mixedTriple" "length mixedTriple = 3"
    by code_simp+
  have u: "2 \<le> length undatedPair" "\<not> projectable sampleRuntime undatedPair"
    by code_simp+
  note s = sorts_by_permuting_sample
  show ?thesis
    using generateNeuralForecast_shape [OF s, of "[]"]
      generateNeuralForecast_shape [OF s, of flatPair]
      generateNeuralForecast_shape [OF s, of mixedTriple]
      generateNeuralForecast_shape [OF s, of undatedPair] f m u s
    by auto
qed

text \<open>
  Two records whose dates do not parse: the forecast of twelve entries is not returned,
  \<open>toISOString\<close> throws in the first round of the loop.
\<close>

theorem generateNeuralForecast_raises_counterexample:
  "2 \<le> length undatedPair \<and> generateNeuralForecast sampleRuntime undatedPair = Inl RangeError"
  by code_simp

text \<open>
  Claim C2, as the code has it. With two records or more, the trend is the base value
  minus the first value, over the number of records. The first value is the engagement
  of the first record of the sorted copy, or 0 when that is 0 or \<open>NaN\<close>; the base value
  is the engagement of its last record, or 100 when that is 0 or \<open>NaN\<close>. When the last
  engagement is neither, this is the trend of the specification. The sorted copy is
  what the engine's \<open>sort\<close> returns: the chronological order when every date parses.
\<close>

theorem trend_of_sorted:
  assumes "sorts_by_permuting rt" "2 \<le> length data"
  shows "trend (map historical (arraySort rt (byTime rt) data)) =
           js_div (js_sub (js_or_num (Engagement (last (arraySort rt (byTime rt) data))) (Fin 100))
                          (js_or_num (Engagement (hd (arraySort rt (byTime rt) data))) (Fin 0)))
                  (Fin (of_nat (length data)))
         \<and> (truthy_num (Engagement (last (arraySort rt (byTime rt) data))) \<longrightarrow>
              trend (map historical (arraySort rt (byTime rt) data)) =
              spec_trend (map historical (arraySort rt (byTime rt) data)))"
proof -
  let ?sorted = "arraySort rt (byTime rt) data"
  have ls: "length ?sorted = length data"
    using assms(1) by (rule length_arraySort)
  with assms(2) have ne: "?sorted \<noteq> []"
    by auto
  then have l: "last (map historical ?sorted) = historical (last ?sorted)"
    by (simp add: last_map)
  from ne have h: "hd (map historical ?sorted) = historical (hd ?sorted)"
    by (simp add: hd_map)
  show ?thesis
    by (simp add: trend_def spec_trend_def lastVal_def actualOr_def l h historical_def
        ls js_or_num_def)
qed

text \<open>
  The witness: the falling pair, whose dates parse, and the four records with one
  unparseable date, which the sample runtime leaves in the order given, so that the
  trend is \<open>(30 - 5) / 4\<close>.
\<close>

theorem trend_of_sorted_witness:
  "sorts_by_permuting sampleRuntime \<and> 2 \<le> length fallingPair \<and>
   trend (map historical (arraySort sampleRuntime (byTime sampleRuntime) fallingPair)) = Fin (- 995 / 2) \<and>
   trend (map historical (arraySort sampleRuntime (byTime sampleRuntime) fallingPair)) =
     spec_trend (map historical (arraySort sampleRuntime (byTime sampleRuntime) fallingPair)) \<and>
   2 \<le> length mixedFour \<and>
   trend (map historical (arraySort sampleRuntime (byTime sampleRuntime) mixedFour)) = Fin (25 / 4)"
proof -
  note s = sorts_by_permuting_sample
  have n: "2 \<le> length fallingPair" "2 \<le> length mixedFour"
    by code_simp+
  have t: "truthy_num (Engagement (last (arraySort sampleRuntime (byTime sampleRuntime) fallingPair)))"
    by code_simp
  have v: "js_div (js_sub (js_or_num (Engagement (last (arraySort sampleRuntime (byTime sampleRuntime) fallingPair))) (Fin 100))
                          (js_or_num (Engagement (hd (arraySort sampleRuntime (byTime sampleRuntime) fallingPair))) (Fin 0)))
                  (Fin (of_nat (length fallingPair))) = Fin (- 995 / 2)"
    by code_simp
  have w: "js_div (js_sub (js_or_num (Engagement (last (arraySort sampleRuntime (byTime sampleRuntime) mixedFour))) (Fin 100))
                          (js_or_num (Engagement (hd (arraySort sampleRuntime (byTime sampleRuntime) mixedFour))) (Fin 0)))
                  (Fin (of_nat (length mixedFour))) = Fin (25 / 4)"
    by code_simp
  from trend_of_sorted [OF s n(1)] t
  have a: "trend (map historical (arraySort sampleRuntime (byTime sampleRuntime) fallingPair)) =
           js_div (js_sub (js_or_num (Engagement (last (arraySort sampleRuntime (byTime sampleRuntime) fallingPair))) (Fin 100))
                          (js_or_num (Engagement (hd (arraySort sampleRuntime (byTime sampleRuntime) fallingPair))) (Fin 0)))
                  (Fin (of_nat (length fallingPair)))"
    and b: "trend (map historical (arraySort sampleRuntime (byTime sampleRuntime) fallingPair)) =
     spec_trend (map historical (arraySort sampleRuntime (byTime sampleRuntime) fallingPair))"
    by blast+
  from trend_of_sorted [OF s n(2)]
  have c: "trend (map historical (arraySort sampleRuntime (byTime sampleRuntime) mixedFour)) =
           js_div (js_sub (js_or_num (Engagement (last (arraySort sampleRuntime (byTime sampleRuntime) mixedFour))) (Fin 100))
                          (js_or_num (Engagement (hd (arraySort sampleRuntime (byTime sampleRuntime) mixedFour))) (Fin 0)))
                  (Fin (of_nat (length mixedFour)))"
    by blast
  from s n a [unfolded v] b c [unfolded w] show ?thesis
    by blast
qed

text \<open>
  Two records without engagement: the specification's trend is \<open>(0 - 0) / 2 = 0\<close>, the
  code's is \<open>(100 - 0) / 2 = 50\<close>.
\<close>

theorem trend_default_counterexample:
  "2 \<le> length flatPair \<and>
   trend (map historical (arraySort sampleRuntime (byTime sampleRuntime) flatPair)) = Fin 50 \<and>
   spec_trend (map historical (arraySort sampleRuntime (byTime sampleRuntime) flatPair)) = Fin 0"
  by code_simp

lemma js_or_num_not_NaN: "d \<noteq> NaN \<Longrightarrow> js_or_num e d \<noteq> NaN"
  by (cases e) (auto simp: js_or_num_def)

lemma base_plus_drift:
  assumes "lv \<noteq> NaN" "0 < n" "0 < i" "js_div (js_sub lv f) (Fin (of_nat n)) \<noteq> NaN"
  shows "js_add lv (js_mul (js_div (js_sub lv f) (Fin (of_nat n))) (Fin (of_nat i))) \<noteq> NaN"
  using assms by (cases lv; cases f) (auto simp: js_sub_def js_signed_inf_def)

lemma jitter_bounds:
  assumes "x \<noteq> NaN" "0 \<le> r" "r < 1"
  shows "js_le (Math_max0 (js_sub x (Fin 10)))
               (Math_max0 (js_add x (js_sub (js_mul (Fin r) (Fin 20)) (Fin 10))))"
    and "js_le (Math_max0 (js_add x (js_sub (js_mul (Fin r) (Fin 20)) (Fin 10))))
               (Math_max0 (js_add x (Fin 10)))"
  using assms by (cases x; auto simp: js_sub_def max_def)+

text \<open>
  Claim C5, as the code has it. Take an input of two records or more whose forecast is
  returned. The base value \<open>l\<close> is the engagement of the last record of the sorted copy,
  or 100 when that is 0 or \<open>NaN\<close>; the trend \<open>t\<close> is \<open>l\<close> minus the first engagement (0
  when that is \<open>NaN\<close>), over the number of records. When the trend is a number (it is
  \<open>NaN\<close> only when both engagements are the same infinity), then for each \<open>i\<close> from 1 to
  10 and every draw of the random source in \<open>[0, 1)\<close>, the \<open>i\<close>-th predicted value lies
  between \<open>max(0, l + t * i - 10)\<close>, the lower bound of the specification, and
  \<open>max(0, l + t * i + 10)\<close>, its upper bound raised to 0 where it is negative.
  The bounds are those of the model's exact arithmetic.
\<close>

theorem predicted_within_bounds:
  assumes s: "sorts_by_permuting rt"
      and n: "2 \<le> length data"
      and ok: "generateNeuralForecast rt data = Inr points"
      and i: "1 \<le> i" "i \<le> 10"
      and r: "0 \<le> random rt i" "random rt i < 1"
  shows "let sorted = arraySort rt (byTime rt) data;
             l = js_or_num (Engagement (last sorted)) (Fin 100);
             t = js_div (js_sub l (js_or_num (Engagement (hd sorted)) (Fin 0)))
                        (Fin (of_nat (length data)))
         in t \<noteq> NaN \<longrightarrow>
            (\<exists>p. predicted (points ! (length data + i - 1)) = Some p \<and>
                 js_le (spec_lower l t i) p \<and> js_le p (Math_max0 (spec_upper l t i)))"
proof -
  let ?sorted = "arraySort rt (byTime rt) data"
  let ?hist = "map historical ?sorted"
  define l where "l = js_or_num (Engagement (last ?sorted)) (Fin 100)"
  define f where "f = js_or_num (Engagement (hd ?sorted)) (Fin 0)"
  define t where "t = js_div (js_sub l f) (Fin (of_nat (length data)))"
  have ls: "length ?sorted = length data"
    using s by (rule length_arraySort)
  with n have ne: "?sorted \<noteq> []"
    by auto
  have proj: "projectable rt data"
  proof (rule ccontr)
    assume "\<not> projectable rt data"
    with n have "generateNeuralForecast rt data = Inl RangeError"
      by (rule forecast_raises)
    with ok show False
      by simp
  qed
  from ok forecast_points [OF n proj]
  have points: "points = ?hist @ map (futurePoint rt (parseTime rt (Date (last ?sorted)))
      (lastVal ?hist) (trend ?hist)) [1 ..< 11]"
    by simp
  have lv: "lastVal ?hist = l"
    using ne by (simp add: lastVal_def actualOr_def last_map historical_def l_def)
  have tr: "trend ?hist = t"
    using ne n by (auto simp add: trend_def lv actualOr_def hd_map historical_def t_def f_def ls)
  from i have idx: "[1 ..< 11] ! (i - 1) = i" and lt: "i - 1 < length [1 ..< 11]"
    by (simp_all del: upt_Suc)
  from i have "length data + i - 1 = length ?hist + (i - 1)"
    by (simp add: ls)
  then have "points ! (length data + i - 1) =
      futurePoint rt (parseTime rt (Date (last ?sorted))) l t i"
    using lt idx by (simp add: points lv tr nth_append del: upt_Suc)
  then have p: "predicted (points ! (length data + i - 1)) =
      Some (predictedValue l t i (random rt i))"
    by (simp add: futurePoint_def)
  have bounds: "js_le (spec_lower l t i) (predictedValue l t i (random rt i)) \<and>
      js_le (predictedValue l t i (random rt i)) (Math_max0 (spec_upper l t i))"
    if "t \<noteq> NaN"
  proof -
    have "l \<noteq> NaN"
      unfolding l_def by (rule js_or_num_not_NaN) simp
    moreover from n have "0 < length data"
      by linarith
    moreover from i have "0 < i"
      by simp
    ultimately have "js_add l (js_mul t (Fin (of_nat i))) \<noteq> NaN"
      using that unfolding t_def by (rule base_plus_drift)
    from jitter_bounds [OF this r] show ?thesis
      by (simp add: spec_lower_def spec_upper_def predictedValue_def)
  qed
  from p bounds show ?thesis
    unfolding Let_def l_def [symmetric] f_def [symmetric] t_def [symmetric] by blast
qed

text \<open>
  The witness: without engagement the base value is 100 and the trend 50, and the first
  predicted value lies between 140 and 160; on the four records with one unparseable
  date, left in the order given, the base value is 30 and the trend \<open>25 / 4\<close>, and it
  lies between 26.25 and 46.25.
\<close>

theorem predicted_within_bounds_witness:
  "sorts_by_permuting sampleRuntime \<and> 2 \<le> length flatPair \<and>
   generateNeuralForecast sampleRuntime flatPair =
     Inr (projr (generateNeuralForecast sampleRuntime flatPair)) \<and>
   (\<exists>p. predicted (projr (generateNeuralForecast sampleRuntime flatPair) ! 2) = Some p \<and>
        js_le (Fin 140) p \<and> js_le p (Fin 160)) \<and>
   2 \<le> length mixedFour \<and>
   generateNeuralForecast sampleRuntime mixedFour =
     Inr (projr (generateNeuralForecast sampleRuntime mixedFour)) \<and>
   (\<exists>p. predicted (projr (generateNeuralForecast sampleRuntime mixedFour) ! 4) = Some p \<and>
        js_le (Fin (105 / 4)) p \<and> js_le p (Fin (185 / 4)))"
proof -
  note s = sorts_by_permuting_sample
  have n: "2 \<le> length flatPair" "2 \<le> length mixedFour"
    by code_simp+
  have "\<not> isl (generateNeuralForecast sampleRuntime flatPair)"
    by code_simp
  then have ok: "generateNeuralForecast sampleRuntime flatPair =
      Inr (projr (generateNeuralForecast sampleRuntime flatPair))"
    by simp
  have "\<not> isl (generateNeuralForecast sampleRuntime mixedFour)"
    by code_simp
  then have ok4: "generateNeuralForecast sampleRuntime mixedFour =
      Inr (projr (generateNeuralForecast sampleRuntime mixedFour))"
    by simp
  have r: "0 \<le> random sampleRuntime 1" "random sampleRuntime 1 < 1"
    by (simp_all add: sampleRuntime_def)
  have v: "js_or_num (Engagement (last (arraySort sampleRuntime (byTime sampleRuntime) flatPair))) (Fin 100) = Fin 100"
    "js_or_num (Engagement (hd (arraySort sampleRuntime (byTime sampleRuntime) flatPair))) (Fin 0) = Fin 0"
    "length flatPair = 2"
    by code_simp+
  have v4: "js_or_num (Engagement (last (arraySort sampleRuntime (byTime sampleRuntime) mixedFour))) (Fin 100) = Fin 30"
    "js_or_num (Engagement (hd (arraySort sampleRuntime (byTime sampleRuntime) mixedFour))) (Fin 0) = Fin 5"
    "length mixedFour = 4"
    by code_simp+
  from predicted_within_bounds [OF s n(1) ok _ _ r]
  have "\<exists>p. predicted (projr (generateNeuralForecast sampleRuntime flatPair) ! 2) = Some p \<and>
        js_le (Fin 140) p \<and> js_le p (Fin 160)"
    by (simp add: Let_def v spec_lower_def spec_upper_def js_sub_def)
  moreover from predicted_within_bounds [OF s n(2) ok4 _ _ r]
  have "\<exists>p. predicted (projr (generateNeuralForecast sampleRuntime mixedFour) ! 4) = Some p \<and>
        js_le (Fin (105 / 4)) p \<and> js_le p (Fin (185 / 4))"
    by (simp add: Let_def v4 spec_lower_def spec_upper_def js_sub_def)
  ultimately show ?thesis
    using s n ok ok4 by blast
qed

text \<open>
  Three inputs at \<open>i = 1\<close> with the draw one half, which is no jitter. Without any
  engagement the code predicts 150 from its base value 100, above the bound
  \<open>0 + 0 * 1 + 10\<close> of the specification. With the engagement falling from 1000 to 5
  the code predicts 0, the floor of \<open>Math.max\<close>, above the bound
  \<open>5 - 497.5 * 1 + 10\<close> of the specification, which is negative. With both engagements
  infinite the trend and the predicted value are \<open>NaN\<close>, which lies in no interval.
\<close>

theorem predicted_bounds_counterexample:
  "\<not> isl (generateNeuralForecast sampleRuntime flatPair) \<and>
   predicted (projr (generateNeuralForecast sampleRuntime flatPair) ! 2) = Some (Fin 150) \<and>
   Engagement (last (arraySort sampleRuntime (byTime sampleRuntime) flatPair)) = Fin 0 \<and>
   spec_trend (map historical (arraySort sampleRuntime (byTime sampleRuntime) flatPair)) = Fin 0 \<and>
   \<not> js_le (Fin 150) (spec_upper (Fin 0) (Fin 0) 1) \<and>
   \<not> isl (generateNeuralForecast sampleRuntime fallingPair) \<and>
   predicted (projr (generateNeuralForecast sampleRuntime fallingPair) ! 2) = Some (Fin 0) \<and>
   Engagement (last (arraySort sampleRuntime (byTime sampleRuntime) fallingPair)) = Fin 5 \<and>
   spec_trend (map historical (arraySort sampleRuntime (byTime sampleRuntime) fallingPair)) = Fin (- 995 / 2) \<and>
   \<not> js_le (Fin 0) (spec_upper (Fin 5) (Fin (- 995 / 2)) 1) \<and>
   \<not> isl (generateNeuralForecast sampleRuntime infinitePair) \<and>
   predicted (projr (generateNeuralForecast sampleRuntime infinitePair) ! 2) = Some NaN \<and>
   Engagement (last (arraySort sampleRuntime (byTime sampleRuntime) infinitePair)) = PosInf \<and>
   spec_trend (map historical (arraySort sampleRuntime (byTime sampleRuntime) infinitePair)) = NaN \<and>
   \<not> js_le NaN (spec_upper PosInf NaN 1)"
  by code_simp

section \<open>The normalizer\<close>

lemma runtime_ok_sample: "runtime_ok sampleRuntime"
proof -
  have d: "nat (x mod 7) < 7" for x :: int
    by (simp add: nat_less_iff)
  have h: "nat (x mod 24) < 24" for x :: int
    by (simp add: nat_less_iff)
  show ?thesis
    by (simp add: runtime_ok_def sampleRuntime_def d h)
qed

lemma processCSVData_nth:
  "i < length rawData \<Longrightarrow> processCSVData rt rawData ! i = processRow rt i (rawData ! i)"
  by (simp add: processCSVData_def nth_enumerate_eq)

lemma numericField_missing: "missing r K k \<Longrightarrow> numericField rt r K k = Fin 0"
  by (simp add: numericField_def missing_def js_or_def)

lemma numericField_capital:
  "truthy (getProp r K) \<Longrightarrow> numericField rt r K k = Number rt (getProp r K)"
  by (simp add: numericField_def js_or_def)

lemma numericField_lower:
  "\<not> truthy (getProp r K) \<Longrightarrow> truthy (getProp r k) \<Longrightarrow>
   numericField rt r K k = Number rt (getProp r k)"
  by (simp add: numericField_def js_or_def)

lemma textField_missing: "missing r K k \<Longrightarrow> textField r K k dflt = JSString dflt"
  by (simp add: textField_def missing_def js_or_def)

lemma textField_capital: "truthy (getProp r K) \<Longrightarrow> textField r K k dflt = getProp r K"
  by (simp add: textField_def js_or_def)

lemma textField_lower:
  "\<not> truthy (getProp r K) \<Longrightarrow> truthy (getProp r k) \<Longrightarrow> textField r K k dflt = getProp r k"
  by (simp add: textField_def js_or_def)

text \<open>A truthy \<open>Hour\<close> is used, converted to a number.\<close>

lemma hourField_given:
  "truthy (getProp r ''Hour'') \<Longrightarrow> hourField rt r = Number rt (getProp r ''Hour'')"
  by (simp add: hourField_def)

lemma hourField_derived:
  assumes "runtime_ok rt" "\<not> truthy (getProp r ''Hour'')"
  shows "spec_hour (hourField rt r)"
proof (cases "newDate rt (getProp r ''Date'')")
  case None
  with assms(2) show ?thesis
    by (simp add: hourField_def getHours_def js_or_num_def)
next
  case (Some t)
  from assms(1) have "localHours rt t < 24"
    by (simp add: runtime_ok_def)
  with Some assms(2) show ?thesis
    by (simp add: hourField_def getHours_def js_or_num_def)
qed

text \<open>
  Claim C1, as the code has it. For a runtime whose calendar gives hours below 24, the
  normalizer returns one record for every row, whatever the row holds, and in the
  record of row \<open>i\<close>:
  \<^item> each of the five counts is 0 when its field is missing; otherwise it is the
    conversion to a number of the value supplied, which is that of the capitalised key
    when truthy and else that of the lower-cased key, kept as it is whenever the
    conversion gives a number, with no check of its sign;
  \<^item> \<open>Sector\<close>, \<open>Platform\<close> and \<open>Date\<close> are the value supplied in the same way, and
    \<open>General\<close>, \<open>Unknown\<close> and the clock's reading when missing;
  \<^item> \<open>Hour\<close> is the conversion to a number of a truthy \<open>Hour\<close> field whenever that
    gives a number, with no check of its range, and an integer from 0 to 23 when the
    row has no truthy \<open>Hour\<close>.
  What a count or an hour becomes when the conversion fails is left open here. The
  model has no failing branch: conversions of scalar values never throw.
\<close>

theorem processCSVData_fields:
  assumes "runtime_ok rt" "i < length rawData"
  shows "length (processCSVData rt rawData) = length rawData \<and>
    (let r = rawData ! i; d = processCSVData rt rawData ! i in
       (\<forall>(field, K, k) \<in> set [(Engagement, ''Engagement'', ''engagement''),
            (Impressions, ''Impressions'', ''impressions''), (Shares, ''Shares'', ''shares''),
            (Likes, ''Likes'', ''likes''), (Comments, ''Comments'', ''comments'')].
          (missing r K k \<longrightarrow> field d = Fin 0) \<and>
          (truthy (getProp r K) \<and> Number rt (getProp r K) \<noteq> NaN \<longrightarrow>
             field d = Number rt (getProp r K)) \<and>
          (\<not> truthy (getProp r K) \<and> truthy (getProp r k) \<and> Number rt (getProp r k) \<noteq> NaN \<longrightarrow>
             field d = Number rt (getProp r k))) \<and>
       (\<forall>(field, K, k, dflt) \<in> set [(Sector, ''Sector'', ''sector'', ''General''),
            (Platform, ''Platform'', ''platform'', ''Unknown''),
            (Date, ''Date'', ''date'', nowISO rt i)].
          (missing r K k \<longrightarrow> field d = JSString dflt) \<and>
          (truthy (getProp r K) \<longrightarrow> field d = getProp r K) \<and>
          (\<not> truthy (getProp r K) \<and> truthy (getProp r k) \<longrightarrow> field d = getProp r k)) \<and>
       (truthy (getProp r ''Hour'') \<and> Number rt (getProp r ''Hour'') \<noteq> NaN \<longrightarrow>
          Hour d = Number rt (getProp r ''Hour'')) \<and>
       (\<not> truthy (getProp r ''Hour'') \<longrightarrow> spec_hour (Hour d)))"
proof -
  have len: "length (processCSVData rt rawData) = length rawData"
    by (simp add: processCSVData_def)
  have d: "processCSVData rt rawData ! i = processRow rt i (rawData ! i)"
    using assms(2) by (rule processCSVData_nth)
  show ?thesis
    unfolding Let_def d
    using assms(1)
    by (simp add: len processRow_def numericField_missing numericField_capital numericField_lower
        textField_missing textField_capital textField_lower hourField_given hourField_derived)
qed

text \<open>
  The witness, on the sample rows. Row 0 has its timestamp and its engagement under
  the lower-cased keys only, and nothing else: the engagement is 42, the likes are 0,
  sector and platform are the defaults, and the hour is in range. Row 1 has a
  capitalised engagement of \<open>-5\<close> and an hour of \<open>99\<close>, and both are kept.
\<close>

theorem processCSVData_fields_witness:
  "runtime_ok sampleRuntime \<and> 1 < length sampleRows \<and>
   length (processCSVData sampleRuntime sampleRows) = 3 \<and>
   \<not> truthy (getProp (sampleRows ! 0) ''Engagement'') \<and>
   truthy (getProp (sampleRows ! 0) ''engagement'') \<and>
   Engagement (processCSVData sampleRuntime sampleRows ! 0) = Fin 42 \<and>
   missing (sampleRows ! 0) ''Likes'' ''likes'' \<and>
   Likes (processCSVData sampleRuntime sampleRows ! 0) = Fin 0 \<and>
   missing (sampleRows ! 0) ''Sector'' ''sector'' \<and>
   Sector (processCSVData sampleRuntime sampleRows ! 0) = JSString ''General'' \<and>
   missing (sampleRows ! 0) ''Platform'' ''platform'' \<and>
   Platform (processCSVData sampleRuntime sampleRows ! 0) = JSString ''Unknown'' \<and>
   Date (processCSVData sampleRuntime sampleRows ! 0) = JSString ''2024-01-01T09:00:00Z'' \<and>
   \<not> truthy (getProp (sampleRows ! 0) ''Hour'') \<and>
   spec_hour (Hour (processCSVData sampleRuntime sampleRows ! 0)) \<and>
   truthy (getProp (sampleRows ! 1) ''Engagement'') \<and>
   Engagement (processCSVData sampleRuntime sampleRows ! 1) = Fin (- 5) \<and>
   truthy (getProp (sampleRows ! 1) ''Hour'') \<and>
   Hour (processCSVData sampleRuntime sampleRows ! 1) = Fin 99"
proof -
  have len: "0 < length sampleRows" "1 < length sampleRows" "length sampleRows = 3"
    by (simp_all add: sampleRows_def)
  have m: "missing (sampleRows ! 0) ''Likes'' ''likes''"
    "missing (sampleRows ! 0) ''Sector'' ''sector''"
    "missing (sampleRows ! 0) ''Platform'' ''platform''"
    "\<not> truthy (getProp (sampleRows ! 0) ''Hour'')"
    "\<not> truthy (getProp (sampleRows ! 0) ''Engagement'')"
    "truthy (getProp (sampleRows ! 0) ''engagement'')"
    "\<not> truthy (getProp (sampleRows ! 0) ''Date'')"
    "truthy (getProp (sampleRows ! 0) ''date'')"
    "truthy (getProp (sampleRows ! 1) ''Engagement'')"
    "truthy (getProp (sampleRows ! 1) ''Hour'')"
    by (simp_all add: sampleRows_def missing_def getProp_def)
  have v: "Number sampleRuntime (getProp (sampleRows ! 0) ''engagement'') = Fin 42"
    "Number sampleRuntime (getProp (sampleRows ! 1) ''Engagement'') = Fin (- 5)"
    "Number sampleRuntime (getProp (sampleRows ! 1) ''Hour'') = Fin 99"
    "getProp (sampleRows ! 0) ''date'' = JSString ''2024-01-01T09:00:00Z''"
    by code_simp+
  from processCSVData_fields [OF runtime_ok_sample len(1)]
    processCSVData_fields [OF runtime_ok_sample len(2)] runtime_ok_sample len m v
  show ?thesis
    by (simp add: Let_def)
qed

text \<open>
  A row with the count \<open>-5\<close> and the hour \<open>99\<close> keeps both: its record does not meet
  the field constraints.
\<close>

theorem processCSVData_fields_counterexample:
  "Engagement (processCSVData sampleRuntime sampleRows ! 1) = Fin (- 5) \<and>
   Hour (processCSVData sampleRuntime sampleRows ! 1) = Fin 99 \<and>
   \<not> spec_fieldConstraints (processCSVData sampleRuntime sampleRows ! 1)"
  by code_simp

text \<open>
  Claim C6 at a row whose \<open>Hour\<close> is present and is the number 0, with a date at nine
  o'clock. The conversion of the field is 0; the record's \<open>Hour\<close> is 9, taken from the
  date, because the test \<open>row.Hour ? \<dots>\<close> takes 0 for an absent field.
\<close>

theorem hour_zero_taken_from_date:
  "getProp midnightRow ''Hour'' = JSNumber (Fin 0) \<and>
   Number sampleRuntime (getProp midnightRow ''Hour'') = Fin 0 \<and>
   Hour (processRow sampleRuntime 0 midnightRow) = Fin 9 \<and>
   Hour (processCSVData sampleRuntime [midnightRow] ! 0) = Fin 9"
  by code_simp

section \<open>The input array is left as it was\<close>

lemma spread_keeps:
  "a < fresh st \<Longrightarrow> arrays (snd (spread st data)) a = arrays st a"
  by (simp add: spread_def)

lemma spread_copy: "arrays (snd (spread st data)) (fst (spread st data)) = arrays st data"
  by (simp add: spread_def)

lemma sortInPlace_other: "a \<noteq> c \<Longrightarrow> arrays (sortInPlace rt cmp st c) a = arrays st a"
  by (simp add: sortInPlace_def)

lemma sortInPlace_self: "arrays (sortInPlace rt cmp st c) c = arraySort rt cmp (arrays st c)"
  by (simp add: sortInPlace_def)

text \<open>On the store, the forecast is the one computed from the contents of the input array.\<close>

lemma generateNeuralForecast_in_result:
  "fst (generateNeuralForecast_in rt st data) = generateNeuralForecast rt (arrays st data)"
  by (simp add: generateNeuralForecast_in_def generateNeuralForecast_def Let_def split_def
      spread_copy sortInPlace_self del: upt_Suc)

lemma generateNeuralForecast_in_store:
  assumes "a < fresh st"
  shows "arrays (snd (generateNeuralForecast_in rt st data)) a = arrays st a"
proof (cases "length (arrays st data) < 2")
  case True
  then show ?thesis
    by (simp add: generateNeuralForecast_in_def)
next
  case False
  from assms have "a \<noteq> fst (spread st data)"
    by (simp add: spread_def)
  with False assms show ?thesis
    by (simp add: generateNeuralForecast_in_def Let_def split_def sortInPlace_other spread_keeps)
qed

text \<open>
  Claim C10. After \<open>calculateNTS\<close>, \<open>generateNeuralForecast\<close> or
  \<open>generateRichSummary\<close> has run on an allocated array, the array holds the elements it
  held before, in the same order. The forecaster sorts the copy it allocates, which is
  another array.
\<close>

theorem input_unchanged:
  assumes "data < fresh st"
  shows "arrays (snd (calculateNTS_in rt st data)) data = arrays st data \<and>
         arrays (snd (generateNeuralForecast_in rt st data)) data = arrays st data \<and>
         arrays (snd (generateRichSummary_in rt st data nts)) data = arrays st data"
  using assms
  by (simp add: calculateNTS_in_def generateRichSummary_in_def generateNeuralForecast_in_store)

text \<open>
  On the sample store the input at address 0 stays as it was, out of order, and the
  copy at address 1 is the sorted one.
\<close>

theorem input_unchanged_witness:
  "0 < fresh sampleStore \<and>
   arrays (snd (calculateNTS_in sampleRuntime sampleStore 0)) 0 = flatPair \<and>
   arrays (snd (generateNeuralForecast_in sampleRuntime sampleStore 0)) 0 = flatPair \<and>
   arrays (snd (generateRichSummary_in sampleRuntime sampleStore 0 notAvailable)) 0 = flatPair \<and>
   arrays (snd (generateNeuralForecast_in sampleRuntime sampleStore 0)) 1 = rev flatPair"
proof -
  have f: "0 < fresh sampleStore"
    by (simp add: sampleStore_def)
  have a: "arrays sampleStore 0 = flatPair"
    by (simp add: sampleStore_def)
  have c: "arrays (snd (generateNeuralForecast_in sampleRuntime sampleStore 0)) 1 = rev flatPair"
    by code_simp
  from input_unchanged [OF f, of sampleRuntime notAvailable] f a c show ?thesis
    by simp
qed

end
